theory Spec2Isabelle
  imports Complex_Main
begin

section \<open>Cells, strings and the library boundary\<close>

text \<open>
  A cell of the uploaded table is a number, a text or missing (pandas NaN). Numbers are
  exact rationals: rounding, infinities and overflow of binary floating point are not part
  of this development.
\<close>

datatype cell = Num rat | Str string | Missing

definition is_space :: "char \<Rightarrow> bool" where
  "is_space c = (c \<in> set [CHR '' '', CHR 0x09, CHR 0x0A, CHR 0x0B, CHR 0x0C, CHR 0x0D])"

definition strip :: "string \<Rightarrow> string" where
  "strip s = rev (dropWhile is_space (rev (dropWhile is_space s)))"

definition char_lower :: "char \<Rightarrow> char" where
  "char_lower c =
     (case map_of (zip ''ABCDEFGHIJKLMNOPQRSTUVWXYZ'' ''abcdefghijklmnopqrstuvwxyz'') c of
        Some l \<Rightarrow> l
      | None \<Rightarrow> c)"

definition lower :: "string \<Rightarrow> string" where
  "lower s = map char_lower s"

text \<open>\<open>request.form.get(name, "").strip().lower()\<close>, lines 330 to 336.\<close>

definition form_field :: "string \<Rightarrow> string" where
  "form_field s = lower (strip s)"

text \<open>\<open>df.columns.str.strip().str.lower()\<close>, line 323.\<close>

definition normalize_columns :: "string list \<Rightarrow> string list" where
  "normalize_columns cs = map (\<lambda>c. lower (strip c)) cs"

section \<open>The chart history (lines 108 to 138)\<close>

datatype time_mode = Date | YearMonth | Year | Month

record entry =
  e_id :: string
  e_timestamp :: string
  e_labels :: "string list"
  e_values :: "rat list"
  e_revenue :: rat
  e_product :: string
  e_time_mode :: time_mode
  e_filename :: string

text \<open>
  The history file is absent, holds something \<open>json.load\<close> rejects, or holds a list of
  entries. Opening it for writing can fail (nothing changes), and \<open>json.dump\<close> can fail
  after the file was truncated (what is left does not parse).
\<close>

datatype history_file = Absent | Unreadable | Stored "entry list"

datatype write_outcome = Written | OpenFails | DumpFails

record hist_env =
  uuid4_hex :: string
  now_isoformat :: string
  str_of :: "cell \<Rightarrow> string"
  write_result :: write_outcome

definition load_chart_history :: "history_file \<Rightarrow> entry list" where
  "load_chart_history f = (case f of Absent \<Rightarrow> [] | Unreadable \<Rightarrow> [] | Stored h \<Rightarrow> h)"

definition new_entry ::
  "hist_env \<Rightarrow> string list \<Rightarrow> rat list \<Rightarrow> rat \<Rightarrow> cell \<Rightarrow> time_mode \<Rightarrow> string \<Rightarrow> entry" where
  "new_entry env lbls vs revenue product tm filename =
     \<lparr>e_id = take 8 (uuid4_hex env), e_timestamp = now_isoformat env, e_labels = lbls,
      e_values = vs, e_revenue = revenue, e_product = str_of env product,
      e_time_mode = tm, e_filename = filename\<rparr>"

definition save_chart_to_history ::
  "hist_env \<Rightarrow> history_file \<Rightarrow> string list \<Rightarrow> rat list \<Rightarrow> rat \<Rightarrow> cell \<Rightarrow> time_mode \<Rightarrow> string
     \<Rightarrow> history_file \<times> string" where
  "save_chart_to_history env f lbls vs revenue product tm filename =
     (let history = load_chart_history f;
          e = new_entry env lbls vs revenue product tm filename;
          history = take 20 (e # history);
          f' = (case write_result env of
                  Written \<Rightarrow> Stored history
                | OpenFails \<Rightarrow> f
                | DumpFails \<Rightarrow> Unreadable)
      in (f', e_id e))"

text \<open>One recorded aggregation: the environment of the call and the six arguments.\<close>

record recording =
  r_env :: hist_env
  r_labels :: "string list"
  r_values :: "rat list"
  r_revenue :: rat
  r_product :: cell
  r_time_mode :: time_mode
  r_filename :: string

definition entry_of :: "recording \<Rightarrow> entry" where
  "entry_of c = new_entry (r_env c) (r_labels c) (r_values c) (r_revenue c) (r_product c)
                  (r_time_mode c) (r_filename c)"

definition record_one :: "history_file \<Rightarrow> recording \<Rightarrow> history_file" where
  "record_one f c = fst (save_chart_to_history (r_env c) f (r_labels c) (r_values c)
                           (r_revenue c) (r_product c) (r_time_mode c) (r_filename c))"

definition record_all :: "history_file \<Rightarrow> recording list \<Rightarrow> history_file" where
  "record_all f cs = foldl record_one f cs"

definition all_written :: "recording list \<Rightarrow> bool" where
  "all_written cs = list_all (\<lambda>c. write_result (r_env c) = Written) cs"

section \<open>Storage paths (lines 21 to 68 and 546 to 564)\<close>

record os_env =
  BASE_DIR :: string
  isabs :: "string \<Rightarrow> bool"
  abspath :: "string \<Rightarrow> string"
  join :: "string \<Rightarrow> string \<Rightarrow> string"
  makedirs_ok :: "string \<Rightarrow> bool"
  config_writable :: bool

record storage_state =
  UPLOAD_FOLDER :: string
  OUTPUT_FOLDER :: string
  config_json :: "(string \<times> string) option"
  created_dirs :: "string list"

datatype outcome = Returned | Raised

definition normalize_storage_path :: "os_env \<Rightarrow> string \<Rightarrow> string \<Rightarrow> string" where
  "normalize_storage_path os path_value fallback_name =
     (if path_value = [] then join os (BASE_DIR os) fallback_name
      else let cleaned = strip path_value in
        if cleaned = [] then join os (BASE_DIR os) fallback_name
        else if isabs os cleaned then abspath os cleaned
        else abspath os (join os (BASE_DIR os) cleaned))"

definition save_storage_config ::
  "os_env \<Rightarrow> storage_state \<Rightarrow> string \<Rightarrow> string \<Rightarrow> storage_state \<times> outcome" where
  "save_storage_config os st upload_folder output_folder =
     (if config_writable os
      then (st\<lparr>config_json := Some (upload_folder, output_folder)\<rparr>, Returned)
      else (st, Raised))"

text \<open>
  Lines 65 and 66 assign the two globals before lines 67 and 68 create the directories, so
  a failing \<open>os.makedirs\<close> leaves the assignments in place.
\<close>

definition apply_storage_paths ::
  "os_env \<Rightarrow> storage_state \<Rightarrow> string \<Rightarrow> string \<Rightarrow> storage_state \<times> outcome" where
  "apply_storage_paths os st upload_folder output_folder =
     (let st1 = st\<lparr>UPLOAD_FOLDER := upload_folder, OUTPUT_FOLDER := output_folder\<rparr> in
      if \<not> makedirs_ok os (UPLOAD_FOLDER st1) then (st1, Raised)
      else let st2 = st1\<lparr>created_dirs := created_dirs st1 @ [UPLOAD_FOLDER st1]\<rparr> in
        if \<not> makedirs_ok os (OUTPUT_FOLDER st2) then (st2, Raised)
        else (st2\<lparr>created_dirs := created_dirs st2 @ [OUTPUT_FOLDER st2]\<rparr>, Returned))"

datatype settings_message = Success | Error

definition settings_page_post ::
  "os_env \<Rightarrow> storage_state \<Rightarrow> string \<Rightarrow> string \<Rightarrow> storage_state \<times> settings_message" where
  "settings_page_post os st upload_folder_input output_folder_input =
     (let upload_folder = normalize_storage_path os upload_folder_input ''uploads'';
          output_folder = normalize_storage_path os output_folder_input ''output''
      in case apply_storage_paths os st upload_folder output_folder of
           (st1, Raised) \<Rightarrow> (st1, Error)
         | (st1, Returned) \<Rightarrow>
             (case save_storage_config os st1 upload_folder output_folder of
                (st2, Raised) \<Rightarrow> (st2, Error)
              | (st2, Returned) \<Rightarrow> (st2, Success)))"

text \<open>A POSIX-like environment for concrete runs: \<open>/srv\<close> cannot be written to.\<close>

definition posix_env :: os_env where
  "posix_env =
     \<lparr>BASE_DIR = ''/app'',
      isabs = (\<lambda>p. case p of [] \<Rightarrow> False | c # _ \<Rightarrow> c = CHR ''/''),
      abspath = (\<lambda>p. p),
      join = (\<lambda>a b. a @ ''/'' @ b),
      makedirs_ok = (\<lambda>p. take 4 p \<noteq> ''/srv''),
      config_writable = True\<rparr>"

definition initial_storage :: storage_state where
  "initial_storage =
     \<lparr>UPLOAD_FOLDER = ''/app/uploads'', OUTPUT_FOLDER = ''/app/output'',
      config_json = Some (''/app/uploads'', ''/app/output''),
      created_dirs = [''/app/uploads'', ''/app/output'']\<rparr>"

section \<open>The uploaded frame (lines 318 to 346)\<close>

text \<open>
  The frame is taken after line 323: \<open>columns\<close> holds the normalized header and a row
  maps a normalized column name to its cell. Column names are distinct (pandas selects a
  sub-frame for a repeated name, which is not part of this development), and a row without
  a value for a column reads as missing there, as \<open>read_csv\<close> pads short lines.
\<close>

type_synonym row = "string \<Rightarrow> cell option"

record frame =
  df_columns :: "string list"
  df_rows :: "row list"

record mapping =
  product_col :: string
  total_col :: string
  quantity_col :: string
  price_col :: string
  date_col :: string
  year_col :: string
  month_col :: string

text \<open>
  What the development takes from pandas without looking inside: how \<open>pd.to_numeric\<close>
  reads a text cell, and how \<open>pd.to_datetime\<close> without a format reads a cell of a
  column (it may look at the whole column to settle on a format); the latter gives year,
  month and day.
\<close>

record pandas =
  str_to_numeric :: "string \<Rightarrow> rat option"
  to_datetime :: "cell list \<Rightarrow> cell \<Rightarrow> (int \<times> int \<times> int) option"

datatype error =
    MissingProductColumn
  | MissingRevenueColumns
  | NoValidRows
  | MissingTimeColumns time_mode
  | NoTimeValuesFound
  | UnhandledTypeError
  | UnhandledValueError

record result =
  total_revenue :: rat
  best_product :: cell
  labels :: "string list"
  chart_values :: "rat list"

definition cell_at :: "row \<Rightarrow> string \<Rightarrow> cell" where
  "cell_at r c = (case r c of Some v \<Rightarrow> v | None \<Rightarrow> Missing)"

text \<open>\<open>df[name] = series\<close>: the column is overwritten, or appended when it is new.\<close>

definition set_column :: "string \<Rightarrow> (row \<Rightarrow> cell) \<Rightarrow> frame \<Rightarrow> frame" where
  "set_column name f df =
     \<lparr>df_columns = (if name \<in> set (df_columns df) then df_columns df else df_columns df @ [name]),
      df_rows = map (\<lambda>r. r(name \<mapsto> f r)) (df_rows df)\<rparr>"

definition dropna :: "string list \<Rightarrow> frame \<Rightarrow> frame" where
  "dropna cols df =
     df\<lparr>df_rows := filter (\<lambda>r. list_all (\<lambda>c. cell_at r c \<noteq> Missing) cols) (df_rows df)\<rparr>"

text \<open>\<open>pd.to_numeric(series, errors="coerce")\<close>, cell by cell.\<close>

definition to_numeric :: "pandas \<Rightarrow> cell \<Rightarrow> rat option" where
  "to_numeric L c = (case c of Num q \<Rightarrow> Some q | Str s \<Rightarrow> str_to_numeric L s | Missing \<Rightarrow> None)"

definition num_cell :: "rat option \<Rightarrow> cell" where
  "num_cell x = (case x of Some q \<Rightarrow> Num q | None \<Rightarrow> Missing)"

definition mul_opt :: "rat option \<Rightarrow> rat option \<Rightarrow> rat option" where
  "mul_opt a b = (case a of None \<Rightarrow> None | Some x \<Rightarrow> (case b of None \<Rightarrow> None | Some y \<Rightarrow> Some (x * y)))"

text \<open>\<open>series.astype(int)\<close> on a number: truncation toward zero.\<close>

definition astype_int :: "rat \<Rightarrow> int" where
  "astype_int q = (if 0 \<le> q then \<lfloor>q\<rfloor> else \<lceil>q\<rceil>)"

section \<open>Month names and labels\<close>

definition month_abbr_names :: "string list" where
  "month_abbr_names =
     [''Jan'', ''Feb'', ''Mar'', ''Apr'', ''May'', ''Jun'',
      ''Jul'', ''Aug'', ''Sep'', ''Oct'', ''Nov'', ''Dec'']"

definition month_full_names :: "string list" where
  "month_full_names =
     [''January'', ''February'', ''March'', ''April'', ''May'', ''June'',
      ''July'', ''August'', ''September'', ''October'', ''November'', ''December'']"

fun index_of :: "'a \<Rightarrow> 'a list \<Rightarrow> nat option" where
  "index_of x [] = None"
| "index_of x (y # ys) = (if x = y then Some 0 else map_option Suc (index_of x ys))"

text \<open>
  \<open>pd.to_datetime(series.astype(str), format=f, errors="coerce").dt.month\<close> for \<open>f\<close> one
  of \<open>%b\<close> and \<open>%B\<close>: the whole text is one of the twelve names, letter case ignored.
  The text of a number or of NaN is no month name.
\<close>

definition strptime_month :: "string list \<Rightarrow> cell \<Rightarrow> rat option" where
  "strptime_month names c =
     (case c of
        Str s \<Rightarrow> map_option (\<lambda>i. of_nat (Suc i)) (index_of (lower s) (map lower names))
      | Num q \<Rightarrow> None
      | Missing \<Rightarrow> None)"

definition fillna :: "rat option \<Rightarrow> rat option \<Rightarrow> rat option" where
  "fillna a b = (case a of Some x \<Rightarrow> Some x | None \<Rightarrow> b)"

definition parse_month_to_number :: "pandas \<Rightarrow> cell \<Rightarrow> rat option" where
  "parse_month_to_number L c =
     (let numeric = to_numeric L c;
          short_name = strptime_month month_abbr_names c;
          full_name = strptime_month month_full_names c
      in fillna (fillna numeric short_name) full_name)"

text \<open>
  \<open>calendar.month_abbr[i]\<close>: the empty text at 0 and the names at 1 to 12; the program
  reads it at no other index.
\<close>

definition month_abbr :: "int \<Rightarrow> string" where
  "month_abbr i = (if 1 \<le> i \<and> i \<le> 12 then month_abbr_names ! nat (i - 1) else [])"

function str_nat :: "nat \<Rightarrow> string" where
  "str_nat n = (if n < 10 then [''0123456789'' ! n] else str_nat (n div 10) @ [''0123456789'' ! (n mod 10)])"
  by pat_completeness auto
termination
  by (relation "measure id") auto

definition str_int :: "int \<Rightarrow> string" where
  "str_int i = (if i < 0 then CHR ''-'' # str_nat (nat (- i)) else str_nat (nat i))"

definition zfill :: "nat \<Rightarrow> string \<Rightarrow> string" where
  "zfill w s = replicate (w - length s) (CHR ''0'') @ s"

text \<open>The text of a monthly period, \<open>YYYY-MM\<close>, for the years 0 to 9999.\<close>

definition period_str :: "int \<times> int \<Rightarrow> string" where
  "period_str p = (case p of (y, m) \<Rightarrow> zfill 4 (str_int y) @ ''-'' @ zfill 2 (str_int m))"

definition period_less :: "int \<times> int \<Rightarrow> int \<times> int \<Rightarrow> bool" where
  "period_less p q = (case p of (y1, m1) \<Rightarrow> (case q of (y2, m2) \<Rightarrow> y1 < y2 \<or> (y1 = y2 \<and> m1 < m2)))"

section \<open>Grouping\<close>

text \<open>
  \<open>groupby(key)[col].sum()\<close> with the groups in ascending key order: an association list
  kept sorted by the key, one running sum per key.
\<close>

fun group_add :: "('k \<Rightarrow> 'k \<Rightarrow> bool) \<Rightarrow> 'k \<Rightarrow> rat \<Rightarrow> ('k \<times> rat) list \<Rightarrow> ('k \<times> rat) list" where
  "group_add lt k v [] = [(k, v)]"
| "group_add lt k v ((k', s) # g) =
     (if k = k' then (k', s + v) # g
      else if lt k k' then (k, v) # (k', s) # g
      else (k', s) # group_add lt k v g)"

fun groupby_sum :: "('k \<Rightarrow> 'k \<Rightarrow> bool) \<Rightarrow> ('k \<times> rat) list \<Rightarrow> ('k \<times> rat) list" where
  "groupby_sum lt [] = []"
| "groupby_sum lt ((k, v) # kvs) = group_add lt k v (groupby_sum lt kvs)"

text \<open>\<open>idxmax\<close>: the first key, in the order of the groups, whose sum is the greatest.\<close>

fun idxmax_from :: "'k \<times> rat \<Rightarrow> ('k \<times> rat) list \<Rightarrow> 'k" where
  "idxmax_from (bk, bv) [] = bk"
| "idxmax_from (bk, bv) ((k, v) # g) = (if bv < v then idxmax_from (k, v) g else idxmax_from (bk, bv) g)"

definition idxmax :: "('k \<times> rat) list \<Rightarrow> error + 'k" where
  "idxmax g = (case g of [] \<Rightarrow> Inl UnhandledValueError | x # g' \<Rightarrow> Inr (idxmax_from x g'))"

fun str_less :: "string \<Rightarrow> string \<Rightarrow> bool" where
  "str_less [] [] = False"
| "str_less [] (y # ys) = True"
| "str_less (x # xs) [] = False"
| "str_less (x # xs) (y # ys) =
     ((of_char x :: nat) < of_char y \<or> (x = y \<and> str_less xs ys))"

text \<open>The order of the product keys: numbers by value, texts by code point.\<close>

fun cell_less :: "cell \<Rightarrow> cell \<Rightarrow> bool" where
  "cell_less (Num a) (Num b) = (a < b)"
| "cell_less (Str a) (Str b) = str_less a b"
| "cell_less (Num a) (Str b) = True"
| "cell_less a b = False"

section \<open>Total and product derivation (lines 348 to 388)\<close>

text \<open>Lines 358 to 372; \<open>None\<close> is the refusal of lines 365 to 372.\<close>

definition assign_total :: "pandas \<Rightarrow> string list \<Rightarrow> mapping \<Rightarrow> frame \<Rightarrow> frame option" where
  "assign_total L columns m df =
     (if total_col m \<noteq> [] \<and> total_col m \<in> set columns
      then Some (set_column ''total'' (\<lambda>r. num_cell (to_numeric L (cell_at r (total_col m)))) df)
      else if quantity_col m \<in> set columns \<and> price_col m \<in> set columns
      then Some (set_column ''total''
                   (\<lambda>r. num_cell (mul_opt (to_numeric L (cell_at r (quantity_col m)))
                                            (to_numeric L (cell_at r (price_col m))))) df)
      else None)"

text \<open>Lines 348 to 379: the frame after \<open>dropna\<close>, before line 380 looks at it.\<close>

definition derive_frame :: "pandas \<Rightarrow> string list \<Rightarrow> row list \<Rightarrow> mapping \<Rightarrow> error + frame" where
  "derive_frame L columns rows m =
     (if product_col m \<noteq> [] \<and> product_col m \<in> set columns
      then (case assign_total L columns m \<lparr>df_columns = columns, df_rows = rows\<rparr> of
              None \<Rightarrow> Inl MissingRevenueColumns
            | Some df1 \<Rightarrow>
                let df2 = set_column ''product'' (\<lambda>r. cell_at r (product_col m)) df1;
                    df3 = (if quantity_col m \<in> set columns
                           then set_column ''quantity''
                                  (\<lambda>r. num_cell (to_numeric L (cell_at r (quantity_col m)))) df2
                           else df2)
                in Inr (dropna [''product'', ''total''] df3))
      else Inl MissingProductColumn)"

definition derive :: "pandas \<Rightarrow> string list \<Rightarrow> row list \<Rightarrow> mapping \<Rightarrow> error + frame" where
  "derive L columns rows m =
     (case derive_frame L columns rows m of
        Inl e \<Rightarrow> Inl e
      | Inr df \<Rightarrow> if df_rows df = [] then Inl NoValidRows else Inr df)"

text \<open>
  The total of a row of the derived frame. Lines 359 and 361 leave a number or NaN in the
  column and line 379 drops the rows with NaN, so the other two cases are not reached.
\<close>

definition total_of :: "row \<Rightarrow> rat" where
  "total_of r = (case cell_at r ''total'' of Num q \<Rightarrow> q | Str s \<Rightarrow> 0 | Missing \<Rightarrow> 0)"

section \<open>Time bucketing (lines 390 to 472)\<close>

text \<open>
  The period key of a row in each mode; \<open>None\<close> where the row leaves \<open>chart_df\<close>. In the
  year and month mode, line 418 stores \<open>year_num\<close> before line 419 reads the month column.
\<close>

definition date_key :: "pandas \<Rightarrow> string \<Rightarrow> row list \<Rightarrow> row \<Rightarrow> (int \<times> int) option" where
  "date_key L dc rs r =
     (case to_datetime L (map (\<lambda>r'. cell_at r' dc) rs) (cell_at r dc) of
        None \<Rightarrow> None
      | Some (y, mo, d) \<Rightarrow> Some (y, mo))"

definition month_in_range :: "rat option \<Rightarrow> int option" where
  "month_in_range x =
     (case x of
        None \<Rightarrow> None
      | Some q \<Rightarrow> if 1 \<le> q \<and> q \<le> 12 then Some (astype_int q) else None)"

definition year_month_key :: "pandas \<Rightarrow> string \<Rightarrow> string \<Rightarrow> row \<Rightarrow> (int \<times> int) option" where
  "year_month_key L yc mc r =
     (let year_num = to_numeric L (cell_at r yc);
          r1 = r(''year_num'' \<mapsto> num_cell year_num);
          month_num = parse_month_to_number L (cell_at r1 mc)
      in case year_num of
           None \<Rightarrow> None
         | Some y \<Rightarrow> (case month_in_range month_num of
                        None \<Rightarrow> None
                      | Some mo \<Rightarrow> Some (astype_int y, mo)))"

definition year_key :: "pandas \<Rightarrow> string \<Rightarrow> row \<Rightarrow> int option" where
  "year_key L yc r = map_option astype_int (to_numeric L (cell_at r yc))"

definition month_key :: "pandas \<Rightarrow> string \<Rightarrow> row \<Rightarrow> int option" where
  "month_key L mc r = month_in_range (parse_month_to_number L (cell_at r mc))"

text \<open>
  The rows that stay in \<open>chart_df\<close> (without the helper columns the program adds to
  them), the labels and the values.
\<close>

definition bucket ::
  "('k \<Rightarrow> 'k \<Rightarrow> bool) \<Rightarrow> ('k \<Rightarrow> string) \<Rightarrow> (row \<Rightarrow> 'k option) \<Rightarrow> row list
     \<Rightarrow> row list \<times> string list \<times> rat list" where
  "bucket lt lab key rs =
     (let chart_df = filter (\<lambda>r. key r \<noteq> None) rs;
          grouped = groupby_sum lt (List.map_filter (\<lambda>r. map_option (\<lambda>k. (k, total_of r)) (key r)) rs)
      in (chart_df, map (\<lambda>g. lab (fst g)) grouped, map snd grouped))"

definition time_buckets ::
  "pandas \<Rightarrow> string list \<Rightarrow> mapping \<Rightarrow> time_mode \<Rightarrow> row list
     \<Rightarrow> error + (row list \<times> string list \<times> rat list)" where
  "time_buckets L columns m mode rs =
     (case mode of
        Date \<Rightarrow>
          if date_col m \<in> set columns
          then Inr (bucket period_less period_str (date_key L (date_col m) rs) rs)
          else Inl (MissingTimeColumns Date)
      | YearMonth \<Rightarrow>
          if year_col m \<in> set columns \<and> month_col m \<in> set columns
          then Inr (bucket period_less period_str (year_month_key L (year_col m) (month_col m)) rs)
          else Inl (MissingTimeColumns YearMonth)
      | Year \<Rightarrow>
          if year_col m \<in> set columns
          then Inr (bucket (<) str_int (year_key L (year_col m)) rs)
          else Inl (MissingTimeColumns Year)
      | Month \<Rightarrow>
          if month_col m \<in> set columns
          then Inr (bucket (<) month_abbr (month_key L (month_col m)) rs)
          else Inl (MissingTimeColumns Month))"

section \<open>Leaderboard and the whole request (lines 474 to 512)\<close>

text \<open>
  Line 475 asks whether the frame has a column called \<open>quantity\<close>, whoever put it there.
  Summing a column that holds text and taking \<open>idxmax\<close> of the sums raises a TypeError
  that nothing catches.
\<close>

definition quantity_of :: "row \<Rightarrow> rat" where
  "quantity_of r = (case cell_at r ''quantity'' of Num q \<Rightarrow> q | Str s \<Rightarrow> 0 | Missing \<Rightarrow> 0)"

definition is_text :: "cell \<Rightarrow> bool" where
  "is_text c = (case c of Str s \<Rightarrow> True | Num q \<Rightarrow> False | Missing \<Rightarrow> False)"

definition by_quantity :: "frame \<Rightarrow> bool" where
  "by_quantity df =
     (''quantity'' \<in> set (df_columns df) \<and> list_ex (\<lambda>r. cell_at r ''quantity'' \<noteq> Missing) (df_rows df))"

definition leaderboard :: "frame \<Rightarrow> error + cell" where
  "leaderboard df =
     (if by_quantity df
      then (if list_ex (\<lambda>r. is_text (cell_at r ''quantity'')) (df_rows df)
            then Inl UnhandledTypeError
            else idxmax (groupby_sum cell_less (map (\<lambda>r. (cell_at r ''product'', quantity_of r)) (df_rows df))))
      else idxmax (groupby_sum cell_less (map (\<lambda>r. (cell_at r ''product'', total_of r)) (df_rows df))))"

definition process_data ::
  "pandas \<Rightarrow> string list \<Rightarrow> row list \<Rightarrow> mapping \<Rightarrow> time_mode \<Rightarrow> error + result" where
  "process_data L columns rows m mode =
     (case derive L columns rows m of
        Inl e \<Rightarrow> Inl e
      | Inr df \<Rightarrow>
          (case time_buckets L columns m mode (df_rows df) of
             Inl e \<Rightarrow> Inl e
           | Inr (chart_df, lbls, vs) \<Rightarrow>
               if chart_df = [] \<or> lbls = [] then Inl NoTimeValuesFound
               else (case leaderboard df of
                       Inl e \<Rightarrow> Inl e
                     | Inr p \<Rightarrow>
                         Inr \<lparr>total_revenue = sum_list (map total_of (df_rows df)),
                              best_product = p, labels = lbls, chart_values = vs\<rparr>)))"

text \<open>Lines 326 to 328: any other text selects the date mode.\<close>

definition parse_time_mode :: "string \<Rightarrow> time_mode" where
  "parse_time_mode s =
     (let t = lower (strip s) in
      if t = ''date'' then Date
      else if t = ''year_month'' then YearMonth
      else if t = ''year'' then Year
      else if t = ''month'' then Month
      else Date)"

record form =
  f_time_mode :: string
  f_product_col :: string
  f_total_col :: string
  f_quantity_col :: string
  f_price_col :: string
  f_date_col :: string
  f_year_col :: string
  f_month_col :: string

definition form_mapping :: "form \<Rightarrow> mapping" where
  "form_mapping f =
     \<lparr>product_col = form_field (f_product_col f), total_col = form_field (f_total_col f),
      quantity_col = form_field (f_quantity_col f), price_col = form_field (f_price_col f),
      date_col = form_field (f_date_col f), year_col = form_field (f_year_col f),
      month_col = form_field (f_month_col f)\<rparr>"


section \<open>A concrete library for running examples\<close>

text \<open>
  \<open>parse_decimal\<close> reads plain decimal literals (an optional minus sign, digits, an
  optional fraction) and \<open>iso_date\<close> reads dates \<open>YYYY-MM-DD\<close>; on these pandas gives the
  same values, and like pandas \<open>parse_decimal\<close> reads no number in a month name or in the
  word bogus. The examples below hold nothing else in a column that is read as a number or
  as a date. The general statements are about every library, not about this one.
\<close>

definition digit_value :: "char \<Rightarrow> nat option" where
  "digit_value c = map_of (zip ''0123456789'' [0, 1, 2, 3, 4, 5, 6, 7, 8, 9]) c"

fun digits_value :: "string \<Rightarrow> nat \<Rightarrow> nat option" where
  "digits_value [] acc = Some acc"
| "digits_value (c # cs) acc =
     (case digit_value c of None \<Rightarrow> None | Some d \<Rightarrow> digits_value cs (10 * acc + d))"

definition parse_nat :: "string \<Rightarrow> nat option" where
  "parse_nat s = (if s = [] then None else digits_value s 0)"

definition parse_unsigned :: "string \<Rightarrow> rat option" where
  "parse_unsigned s =
     (let ip = takeWhile (\<lambda>c. c \<noteq> CHR ''.'') s;
          rest = dropWhile (\<lambda>c. c \<noteq> CHR ''.'') s
      in case rest of
           [] \<Rightarrow> map_option of_nat (parse_nat ip)
         | dot # fp \<Rightarrow>
             (case parse_nat ip of
                None \<Rightarrow> None
              | Some a \<Rightarrow> (case parse_nat fp of
                             None \<Rightarrow> None
                           | Some b \<Rightarrow> Some (of_nat a + of_nat b / 10 ^ length fp))))"

definition parse_decimal :: "string \<Rightarrow> rat option" where
  "parse_decimal s =
     (case s of
        [] \<Rightarrow> None
      | c # t \<Rightarrow> if c = CHR ''-'' then map_option uminus (parse_unsigned t) else parse_unsigned s)"

definition iso_date :: "string \<Rightarrow> (int \<times> int \<times> int) option" where
  "iso_date s =
     (if length s = 10 \<and> s ! 4 = CHR ''-'' \<and> s ! 7 = CHR ''-''
      then (case parse_nat (take 4 s) of
              None \<Rightarrow> None
            | Some y \<Rightarrow> (case parse_nat (take 2 (drop 5 s)) of
                None \<Rightarrow> None
              | Some mo \<Rightarrow> (case parse_nat (drop 8 s) of
                  None \<Rightarrow> None
                | Some d \<Rightarrow> if 1 \<le> mo \<and> mo \<le> 12 \<and> 1 \<le> d \<and> d \<le> 28
                            then Some (int y, int mo, int d) else None)))
      else None)"

definition sample_pandas :: pandas where
  "sample_pandas =
     \<lparr>str_to_numeric = parse_decimal,
      to_datetime = (\<lambda>col c. case c of Str s \<Rightarrow> iso_date s | Num q \<Rightarrow> None | Missing \<Rightarrow> None)\<rparr>"

definition unset_mapping :: mapping where
  "unset_mapping =
     \<lparr>product_col = [], total_col = [], quantity_col = [], price_col = [],
      date_col = [], year_col = [], month_col = []\<rparr>"

section \<open>Notions used in the statements\<close>






section \<open>Example inputs\<close>

definition selected :: "string \<Rightarrow> string \<Rightarrow> string \<Rightarrow> mapping" where
  "selected p t tc =
     unset_mapping\<lparr>product_col := p, total_col := t, date_col := tc, year_col := tc, month_col := tc\<rparr>"





text \<open>A file whose second header cell is a single space, and a form that leaves total,
  quantity and price blank.\<close>

definition blank_header :: "string list" where
  "blank_header = [''Product'', '' '', ''Date'']"

definition blank_rows :: "row list" where
  "blank_rows = [[''product'' \<mapsto> Str ''A'', [] \<mapsto> Num 3, ''date'' \<mapsto> Str ''2024-01-05'']]"

definition blank_form :: form where
  "blank_form =
     \<lparr>f_time_mode = ''date'', f_product_col = ''Product'', f_total_col = [],
      f_quantity_col = '' '', f_price_col = [], f_date_col = ''Date'',
      f_year_col = [], f_month_col = []\<rparr>"

text \<open>A file with a column called \<open>quantity\<close> that the form does not select.\<close>

definition stock_columns :: "string list" where
  "stock_columns = [''product'', ''total'', ''quantity'', ''date'']"

definition stock_rows :: "row list" where
  "stock_rows =
     [[''product'' \<mapsto> Str ''A'', ''total'' \<mapsto> Num 100, ''quantity'' \<mapsto> Num 1,
       ''date'' \<mapsto> Str ''2024-01-05''],
      [''product'' \<mapsto> Str ''B'', ''total'' \<mapsto> Num 1, ''quantity'' \<mapsto> Num 50,
       ''date'' \<mapsto> Str ''2024-01-20'']]"

text \<open>Scenario B, for any four products.\<close>

definition scenario_B_rows :: "cell \<Rightarrow> cell \<Rightarrow> cell \<Rightarrow> cell \<Rightarrow> row list" where
  "scenario_B_rows p1 p2 p3 p4 =
     [[''product'' \<mapsto> p1, ''total'' \<mapsto> Num 1, ''month'' \<mapsto> Str ''Jan''],
      [''product'' \<mapsto> p2, ''total'' \<mapsto> Num 2, ''month'' \<mapsto> Str ''February''],
      [''product'' \<mapsto> p3, ''total'' \<mapsto> Num 3, ''month'' \<mapsto> Num 13],
      [''product'' \<mapsto> p4, ''total'' \<mapsto> Num 4, ''month'' \<mapsto> Str ''bogus'']]"

text \<open>Months out of calendar order, one of them twice, one with a fraction.\<close>

definition monthly_rows :: "row list" where
  "monthly_rows =
     [[''product'' \<mapsto> Str ''A'', ''total'' \<mapsto> Num 4, ''month'' \<mapsto> Str ''dec''],
      [''product'' \<mapsto> Str ''B'', ''total'' \<mapsto> Num 2, ''month'' \<mapsto> Str ''3.5''],
      [''product'' \<mapsto> Str ''A'', ''total'' \<mapsto> Num 1, ''month'' \<mapsto> Str ''December'']]"


text \<open>
  Twenty-one recordings whose identifiers, the first eight characters of \<open>uuid4_hex\<close>,
  are pairwise different.
\<close>

definition sample_env :: "nat \<Rightarrow> write_outcome \<Rightarrow> hist_env" where
  "sample_env n w =
     \<lparr>uuid4_hex = [''0123456789abcdef'' ! (n div 16), ''0123456789abcdef'' ! (n mod 16)]
                   @ replicate 30 (CHR ''0''),
      now_isoformat = ''2024-01-05T10:00:00'',
      str_of = (\<lambda>c. case c of Str s \<Rightarrow> s | Num q \<Rightarrow> [] | Missing \<Rightarrow> []),
      write_result = w\<rparr>"

definition sample_recording :: "nat \<Rightarrow> recording" where
  "sample_recording n =
     \<lparr>r_env = sample_env n Written, r_labels = [''Jan''], r_values = [1], r_revenue = 1,
      r_product = Str ''A'', r_time_mode = Month, r_filename = ''sales_report.xlsx''\<rparr>"

definition sample_run :: "recording list" where
  "sample_run = map sample_recording [0, 1, 2, 3, 4, 5, 6, 7, 8, 9, 10, 11, 12, 13, 14, 15, 16, 17, 18, 19, 20]"

text \<open>The frame of scenario B after the derivation.\<close>

definition scenario_B_frame :: "cell \<Rightarrow> cell \<Rightarrow> cell \<Rightarrow> cell \<Rightarrow> frame" where
  "scenario_B_frame p1 p2 p3 p4 =
     \<lparr>df_columns = [''product'', ''total'', ''month''],
      df_rows =
       [[''month'' \<mapsto> Str ''Jan'', ''total'' \<mapsto> Num 1, ''product'' \<mapsto> p1],
        [''month'' \<mapsto> Str ''February'', ''total'' \<mapsto> Num 2, ''product'' \<mapsto> p2],
        [''month'' \<mapsto> Num 13, ''total'' \<mapsto> Num 3, ''product'' \<mapsto> p3],
        [''month'' \<mapsto> Str ''bogus'', ''total'' \<mapsto> Num 4, ''product'' \<mapsto> p4]]\<rparr>"

section \<open>Properties\<close>

subsection \<open>Grouping keeps the sum and sorts the keys\<close>



lemma keys_group_add: "fst ` set (group_add lt k v g) = insert k (fst ` set g)"
proof (induction g)
  case Nil
  show ?case by simp
next
  case (Cons a g)
  obtain k' s where a: "a = (k', s)" by (cases a)
  show ?case using Cons.IH by (auto simp: a)
qed

lemma keys_groupby_sum: "fst ` set (groupby_sum lt kvs) = fst ` set kvs"
proof (induction kvs)
  case Nil
  show ?case by simp
next
  case (Cons a kvs)
  obtain k v where a: "a = (k, v)" by (cases a)
  show ?case using Cons.IH by (simp add: a keys_group_add)
qed

lemma sorted_group_add:
  fixes k :: int
  shows "sorted_wrt (<) (map fst g) \<Longrightarrow> sorted_wrt (<) (map fst (group_add (<) k v g))"
proof (induction g)
  case Nil
  then show ?case by simp
next
  case (Cons a g)
  obtain k' s where a: "a = (k', s)" by (cases a)
  from Cons.prems have tl: "sorted_wrt (<) (map fst g)" and hd: "\<forall>x\<in>fst ` set g. k' < x"
    by (simp_all add: a)
  show ?case
  proof (cases "k = k'")
    case True
    then show ?thesis using Cons.prems by (simp add: a)
  next
    case False
    show ?thesis
    proof (cases "k < k'")
      case True
      then show ?thesis using Cons.prems \<open>k \<noteq> k'\<close> by (auto simp: a)
    next
      case False
      with \<open>k \<noteq> k'\<close> have "k' < k" by simp
      moreover have "sorted_wrt (<) (map fst (group_add (<) k v g))" using tl by (rule Cons.IH)
      moreover have "fst ` set (group_add (<) k v g) = insert k (fst ` set g)"
        by (rule keys_group_add)
      ultimately show ?thesis using hd \<open>k \<noteq> k'\<close> False by (simp add: a)
    qed
  qed
qed

lemma sorted_groupby_sum:
  fixes kvs :: "(int \<times> rat) list"
  shows "sorted_wrt (<) (map fst (groupby_sum (<) kvs))"
  by (induction kvs) (auto intro: sorted_group_add)

subsection \<open>Buckets and revenue\<close>


lemma map_filter_fst:
  "fst ` set (List.map_filter (\<lambda>r. map_option (\<lambda>k. (k, f r)) (key r)) rs)
     \<subseteq> {k. \<exists>r\<in>set rs. key r = Some k}"
  by (induction rs) (auto simp: List.map_filter_simps split: option.splits)






lemma process_data_Inr:
  assumes "process_data L columns rows m mode = Inr r"
  shows "\<exists>df b. derive_frame L columns rows m = Inr df \<and> df_rows df \<noteq> []
           \<and> time_buckets L columns m mode (df_rows df) = Inr b
           \<and> fst b \<noteq> []
           \<and> total_revenue r = sum_list (map total_of (df_rows df))
           \<and> labels r = fst (snd b) \<and> chart_values r = snd (snd b)"
  using assms
  by (auto simp: process_data_def derive_def split: sum.splits if_splits prod.splits)



subsection \<open>Month labels\<close>

lemma month_in_range_bounds: "month_in_range x = Some k \<Longrightarrow> 1 \<le> k \<and> k \<le> 12"
proof -
  assume a: "month_in_range x = Some k"
  then obtain q where q: "x = Some q" "1 \<le> q" "q \<le> 12" and k: "k = astype_int q"
    by (auto simp: month_in_range_def split: option.splits if_splits)
  have "k = \<lfloor>q\<rfloor>" using q k by (simp add: astype_int_def)
  moreover have "1 \<le> \<lfloor>q\<rfloor>" using q(2) by (simp add: le_floor_iff)
  moreover have "\<lfloor>q\<rfloor> \<le> 12" using q(3) by (simp add: floor_le_iff) 
  ultimately show ?thesis by simp
qed

lemma month_abbr_in_names: "1 \<le> k \<Longrightarrow> k \<le> 12 \<Longrightarrow> month_abbr k \<in> set month_abbr_names"
proof -
  assume "1 \<le> k" "k \<le> 12"
  then have "nat (k - 1) < length month_abbr_names" by (simp add: month_abbr_names_def)
  then have "month_abbr_names ! nat (k - 1) \<in> set month_abbr_names" by (rule nth_mem)
  then show ?thesis using \<open>1 \<le> k\<close> \<open>k \<le> 12\<close> by (simp add: month_abbr_def)
qed

text \<open>
  C7: in the month mode, when the aggregation succeeds, the labels are the abbreviations of a
  strictly increasing list of month numbers between 1 and 12, so each label is one of the
  twelve abbreviations and they come in calendar order.
\<close>

theorem month_labels_calendar_order:
  assumes ok: "process_data L columns rows m Month = Inr r"
  shows "\<exists>ks. labels r = map month_abbr ks \<and> sorted_wrt (<) ks
            \<and> list_all (\<lambda>k. 1 \<le> k \<and> k \<le> 12) ks
            \<and> set (labels r) \<subseteq> set month_abbr_names"
proof -
  from process_data_Inr [OF ok] obtain df :: frame and b where
    b: "time_buckets L columns m Month (df_rows df) = Inr b" and
    ls: "labels r = fst (snd b)"
    by blast
  define kvs where "kvs = List.map_filter (\<lambda>r. map_option (\<lambda>k. (k, total_of r))
      (month_key L (month_col m) r)) (df_rows df)"
  define ks where "ks = map fst (groupby_sum (<) kvs)"
  from b have "b = bucket (<) month_abbr (month_key L (month_col m)) (df_rows df)"
    by (auto simp: time_buckets_def split: if_splits)
  then have lab: "labels r = map month_abbr ks"
    by (simp add: ls bucket_def Let_def ks_def kvs_def)
  have srt: "sorted_wrt (<) ks"
    unfolding ks_def by (rule sorted_groupby_sum)
  have "set ks = fst ` set kvs"
    unfolding ks_def by (simp add: keys_groupby_sum)
  also have "\<dots> \<subseteq> {k. \<exists>r\<in>set (df_rows df). month_key L (month_col m) r = Some k}"
    unfolding kvs_def by (rule map_filter_fst)
  finally have rng: "\<forall>k\<in>set ks. 1 \<le> k \<and> k \<le> 12"
    by (auto simp: month_key_def dest: month_in_range_bounds)
  then have all: "list_all (\<lambda>k. 1 \<le> k \<and> k \<le> 12) ks"
    by (simp add: list_all_iff)
  have "set (labels r) \<subseteq> set month_abbr_names"
    using rng by (auto simp: lab intro: month_abbr_in_names)
  with lab srt all show ?thesis by blast
qed

subsection \<open>Scenario B\<close>

lemma group_add_nonempty: "group_add lt k v g \<noteq> []"
  by (cases g) (auto split: if_splits)

lemma groupby_sum_nonempty: "kvs \<noteq> [] \<Longrightarrow> groupby_sum lt kvs \<noteq> []"
  by (cases kvs) (auto simp: group_add_nonempty)

lemma idxmax_nonempty: "g \<noteq> [] \<Longrightarrow> \<exists>k. idxmax g = Inr k"
  by (cases g) (auto simp: idxmax_def)

lemma leaderboard_by_total:
  "''quantity'' \<notin> set (df_columns df) \<Longrightarrow> df_rows df \<noteq> [] \<Longrightarrow> \<exists>p. leaderboard df = Inr p"
  by (simp add: leaderboard_def by_quantity_def idxmax_nonempty groupby_sum_nonempty)

lemma scenario_B_month_keys:
  assumes "str_to_numeric L ''Jan'' = None" "str_to_numeric L ''February'' = None"
    "str_to_numeric L ''bogus'' = None"
  shows "parse_month_to_number L (Str ''Jan'') = Some 1"
    "parse_month_to_number L (Str ''February'') = Some 2"
    "parse_month_to_number L (Num 13) = Some 13"
    "parse_month_to_number L (Str ''bogus'') = None"
  using assms
  by (simp_all add: parse_month_to_number_def to_numeric_def fillna_def strptime_month_def
      month_abbr_names_def month_full_names_def lower_def char_lower_def)

lemma month_in_range_values:
  "month_in_range (Some 1) = Some 1" "month_in_range (Some 2) = Some 2"
  "month_in_range (Some 13) = None" "month_in_range None = None"
  by (simp_all add: month_in_range_def astype_int_def)

lemma scenario_B_derive:
  assumes prods: "p1 \<noteq> Missing" "p2 \<noteq> Missing" "p3 \<noteq> Missing" "p4 \<noteq> Missing"
  shows "derive L [''product'', ''total'', ''month''] (scenario_B_rows p1 p2 p3 p4)
            (selected ''product'' ''total'' ''month'') = Inr (scenario_B_frame p1 p2 p3 p4)"
    using prods
    by (simp add: derive_def derive_frame_def assign_total_def selected_def unset_mapping_def
        set_column_def dropna_def cell_at_def to_numeric_def num_cell_def scenario_B_rows_def
         Let_def scenario_B_frame_def)

lemma scenario_B_buckets:
  assumes nonnum: "str_to_numeric L ''Jan'' = None" "str_to_numeric L ''February'' = None"
      "str_to_numeric L ''bogus'' = None"
  shows "time_buckets L [''product'', ''total'', ''month''] (selected ''product'' ''total'' ''month'')
           Month (df_rows (scenario_B_frame p1 p2 p3 p4))
         = Inr (take 2 (df_rows (scenario_B_frame p1 p2 p3 p4)), [''Jan'', ''Feb''], [1, 2])"
    by (simp add: time_buckets_def bucket_def month_key_def selected_def unset_mapping_def
        scenario_B_frame_def cell_at_def scenario_B_month_keys [OF nonnum]
        month_in_range_values total_of_def month_abbr_def
        month_abbr_names_def Let_def)

lemma scenario_B_revenue:
  "sum_list (map total_of (df_rows (scenario_B_frame p1 p2 p3 p4))) = 10"
  by (simp add: scenario_B_frame_def total_of_def cell_at_def)

lemma process_data_from_parts:
  assumes "derive L columns rows m = Inr df"
    and "time_buckets L columns m mode (df_rows df) = Inr (chart_df, lbls, vs)"
    and "chart_df \<noteq> []" and "lbls \<noteq> []"
    and "leaderboard df = Inr p"
  shows "process_data L columns rows m mode
         = Inr \<lparr>total_revenue = sum_list (map total_of (df_rows df)), best_product = p,
                labels = lbls, chart_values = vs\<rparr>"
  using assms by (simp add: process_data_def)

text \<open>
  C4: in the month mode, with the month cells Jan, February, 13 and bogus and the totals 1, 2,
  3 and 4, whatever the four products are, the labels are Jan and Feb, the values 1 and 2
  and the revenue 10. The three texts are taken not to read as numbers.
\<close>

theorem month_scenario_result:
  assumes nonnum: "str_to_numeric L ''Jan'' = None" "str_to_numeric L ''February'' = None"
      "str_to_numeric L ''bogus'' = None"
    and prods: "p1 \<noteq> Missing" "p2 \<noteq> Missing" "p3 \<noteq> Missing" "p4 \<noteq> Missing"
  shows "\<exists>p. process_data L [''product'', ''total'', ''month''] (scenario_B_rows p1 p2 p3 p4)
            (selected ''product'' ''total'' ''month'') Month
          = Inr \<lparr>total_revenue = 10, best_product = p, labels = [''Jan'', ''Feb''],
                 chart_values = [1, 2]\<rparr>"
proof -
  let ?df = "scenario_B_frame p1 p2 p3 p4"
  have ne: "take 2 (df_rows ?df) \<noteq> []"
    by (simp add: scenario_B_frame_def)
  have "\<exists>p. leaderboard ?df = Inr p"
    by (rule leaderboard_by_total) (simp_all add: scenario_B_frame_def)
  then obtain p where p: "leaderboard ?df = Inr p"
    by blast
  have run: "process_data L [''product'', ''total'', ''month''] (scenario_B_rows p1 p2 p3 p4)
            (selected ''product'' ''total'' ''month'') Month
          = Inr \<lparr>total_revenue = sum_list (map total_of (df_rows ?df)), best_product = p,
                 labels = [''Jan'', ''Feb''], chart_values = [1, 2]\<rparr>"
    by (rule process_data_from_parts
          [OF scenario_B_derive [OF prods] scenario_B_buckets [OF nonnum] ne _ p]) simp
  show ?thesis
    by (rule exI [where x = p]) (simp only: run scenario_B_revenue)
qed

lemma sample_not_numeric:
  "str_to_numeric sample_pandas ''Jan'' = None"
  "str_to_numeric sample_pandas ''February'' = None"
  "str_to_numeric sample_pandas ''bogus'' = None"
  by (simp_all add: sample_pandas_def parse_decimal_def parse_unsigned_def parse_nat_def digit_value_def)

text \<open>
  C4 with the products A, B, A, B and the concrete library.
\<close>

theorem month_scenario_result_witness:
  "str_to_numeric sample_pandas ''Jan'' = None \<and> str_to_numeric sample_pandas ''February'' = None
   \<and> str_to_numeric sample_pandas ''bogus'' = None \<and> Str ''A'' \<noteq> Missing \<and> Str ''B'' \<noteq> Missing
   \<and> (\<exists>p. process_data sample_pandas [''product'', ''total'', ''month'']
              (scenario_B_rows (Str ''A'') (Str ''B'') (Str ''A'') (Str ''B''))
              (selected ''product'' ''total'' ''month'') Month
            = Inr \<lparr>total_revenue = 10, best_product = p, labels = [''Jan'', ''Feb''],
                   chart_values = [1, 2]\<rparr>)"
  using month_scenario_result [of sample_pandas "Str ''A''" "Str ''B''" "Str ''A''" "Str ''B''"] sample_not_numeric
  by simp

subsection \<open>History\<close>

lemma take_append_take: "take n (xs @ take n ys) = take n (xs @ ys)"
  by (simp add: min_def)

lemma load_record_one:
  "write_result (r_env c) = Written \<Longrightarrow>
     load_chart_history (record_one f c) = take 20 (entry_of c # load_chart_history f)"
  by (simp add: record_one_def save_chart_to_history_def entry_of_def load_chart_history_def Let_def)

lemma load_record_all:
  "all_written cs \<Longrightarrow> length (load_chart_history f) \<le> 20 \<Longrightarrow>
     load_chart_history (record_all f cs) = take 20 (rev (map entry_of cs) @ load_chart_history f)"
proof (induction cs arbitrary: f)
  case Nil
  then show ?case by (simp add: record_all_def)
next
  case (Cons c cs)
  from Cons.prems have w: "write_result (r_env c) = Written" and ws: "all_written cs"
    by (simp_all add: all_written_def)
  have one: "load_chart_history (record_one f c) = take 20 (entry_of c # load_chart_history f)"
    using w by (rule load_record_one)
  then have len: "length (load_chart_history (record_one f c)) \<le> 20" by simp
  have "load_chart_history (record_all (record_one f c) cs) =
          take 20 (rev (map entry_of cs) @ load_chart_history (record_one f c))"
    using ws len by (rule Cons.IH)
  also have "\<dots> = take 20 (rev (map entry_of cs) @ entry_of c # load_chart_history f)"
    unfolding one by (rule take_append_take)
  finally show ?case by (simp add: record_all_def)
qed

lemma take_rev_tl: "length xs = Suc n \<Longrightarrow> take n (rev xs) = rev (tl xs)"
  by (cases xs) simp_all

text \<open>
  C8: when the file is written, the stored history is the new entry followed by the prior
  history, cut after twenty entries. After twenty-one recordings into an absent file, the
  stored history holds the entries of the last twenty, newest first, and so has lost the
  first.
\<close>

theorem history_prepend_and_cap:
  "(write_result env = Written \<longrightarrow>
      fst (save_chart_to_history env f lbls vs revenue product tm filename) =
        Stored (take 20 (new_entry env lbls vs revenue product tm filename # load_chart_history f))
      \<and> length (load_chart_history (fst (save_chart_to_history env f lbls vs revenue product tm filename))) \<le> 20
      \<and> hd (load_chart_history (fst (save_chart_to_history env f lbls vs revenue product tm filename))) =
          new_entry env lbls vs revenue product tm filename)
   \<and> (all_written cs \<and> length cs = 21 \<longrightarrow>
        load_chart_history (record_all Absent cs) = rev (map entry_of (tl cs))
        \<and> length (load_chart_history (record_all Absent cs)) = 20)"
proof (intro conjI impI)
  assume w: "write_result env = Written"
  show "fst (save_chart_to_history env f lbls vs revenue product tm filename) =
        Stored (take 20 (new_entry env lbls vs revenue product tm filename # load_chart_history f))"
    using w by (simp add: save_chart_to_history_def Let_def)
  then show "length (load_chart_history (fst (save_chart_to_history env f lbls vs revenue product tm filename))) \<le> 20"
    by (simp add: load_chart_history_def)
  show "hd (load_chart_history (fst (save_chart_to_history env f lbls vs revenue product tm filename))) =
          new_entry env lbls vs revenue product tm filename"
    using w by (simp add: save_chart_to_history_def Let_def load_chart_history_def)
next
  assume a: "all_written cs \<and> length cs = 21"
  then have "load_chart_history (record_all Absent cs) = take 20 (rev (map entry_of cs))"
    using load_record_all [of cs Absent] by (simp add: load_chart_history_def)
  also have "\<dots> = rev (map entry_of (tl cs))"
    using a take_rev_tl [of "map entry_of cs" 20] by (simp add: map_tl)
  finally show r: "load_chart_history (record_all Absent cs) = rev (map entry_of (tl cs))" .
  show "length (load_chart_history (record_all Absent cs)) = 20"
    unfolding r using a by simp
qed

lemma sample_run_written: "all_written sample_run \<and> length sample_run = 21"
  by (simp add: all_written_def sample_run_def sample_recording_def sample_env_def)

lemma sample_run_first_gone: "entry_of (sample_recording 0) \<notin> set (map entry_of (tl sample_run))"
  by code_simp

lemma sample_run_ids_distinct: "distinct (map (\<lambda>c. e_id (entry_of c)) sample_run)"
  by code_simp

text \<open>
  C8 on twenty-one recordings with pairwise different identifiers.
\<close>

theorem history_prepend_and_cap_witness:
  "write_result (sample_env 0 Written) = Written \<and> all_written sample_run \<and> length sample_run = 21
   \<and> hd (load_chart_history (fst (save_chart_to_history (sample_env 0 Written) Absent [''Jan''] [1] 1
            (Str ''A'') Month ''sales_report.xlsx'')))
       = new_entry (sample_env 0 Written) [''Jan''] [1] 1 (Str ''A'') Month ''sales_report.xlsx''
   \<and> length (load_chart_history (record_all Absent sample_run)) = 20
   \<and> entry_of (sample_recording 0) \<notin> set (load_chart_history (record_all Absent sample_run))"
proof -
  have w: "write_result (sample_env 0 Written) = Written"
    by (simp add: sample_env_def)
  note inst = history_prepend_and_cap [of "sample_env 0 Written" Absent "[''Jan'']" "[1]" 1 "Str ''A''"
        Month "''sales_report.xlsx''" sample_run]
  from inst w have a: "hd (load_chart_history (fst (save_chart_to_history (sample_env 0 Written) Absent
      [''Jan''] [1] 1 (Str ''A'') Month ''sales_report.xlsx'')))
       = new_entry (sample_env 0 Written) [''Jan''] [1] 1 (Str ''A'') Month ''sales_report.xlsx''"
    by blast
  from inst sample_run_written
  have b: "load_chart_history (record_all Absent sample_run) = rev (map entry_of (tl sample_run))"
    and c: "length (load_chart_history (record_all Absent sample_run)) = 20"
    by blast+
  have d: "entry_of (sample_recording 0) \<notin> set (load_chart_history (record_all Absent sample_run))"
    unfolding b using sample_run_first_gone by simp
  from w sample_run_written a c d show ?thesis by blast
qed

subsection \<open>Storage paths\<close>

text \<open>
  C6, as the program runs it. When the upload folder cannot be created, both globals already
  hold the new paths and the persisted configuration holds the old ones; when only the
  output folder cannot be created, the upload folder has moreover been created on disk.
\<close>

theorem failed_storage_change_is_applied_in_memory:
  "settings_page_post posix_env initial_storage ''/srv/uploads'' ''reports''
     = (\<lparr>UPLOAD_FOLDER = ''/srv/uploads'', OUTPUT_FOLDER = ''/app/reports'',
          config_json = Some (''/app/uploads'', ''/app/output''),
          created_dirs = [''/app/uploads'', ''/app/output'']\<rparr>, Error)
   \<and> settings_page_post posix_env initial_storage ''uploads2'' ''/srv/reports''
     = (\<lparr>UPLOAD_FOLDER = ''/app/uploads2'', OUTPUT_FOLDER = ''/srv/reports'',
          config_json = Some (''/app/uploads'', ''/app/output''),
          created_dirs = [''/app/uploads'', ''/app/output'', ''/app/uploads2'']\<rparr>, Error)
   \<and> UPLOAD_FOLDER initial_storage = ''/app/uploads'' \<and> OUTPUT_FOLDER initial_storage = ''/app/output''"
  by (simp add: settings_page_post_def normalize_storage_path_def strip_def is_space_def
      posix_env_def initial_storage_def apply_storage_paths_def save_storage_config_def Let_def)

subsection \<open>A failed write of the history\<close>


subsection \<open>Runs of the example inputs\<close>




lemma blank_run:
  "process_data sample_pandas (normalize_columns blank_header) blank_rows (form_mapping blank_form)
     (parse_time_mode (f_time_mode blank_form))
   = Inr \<lparr>total_revenue = 9, best_product = Str ''A'', labels = [''2024-01''], chart_values = [9]\<rparr>"
  by code_simp

lemma blank_inputs:
  "normalize_columns blank_header = [''product'', [], ''date'']"
  "total_col (form_mapping blank_form) = []"
  "quantity_col (form_mapping blank_form) = []"
  "price_col (form_mapping blank_form) = []"
  by code_simp+

lemma stock_run:
  "process_data sample_pandas stock_columns stock_rows (selected ''product'' ''total'' ''date'') Date
   = Inr \<lparr>total_revenue = 101, best_product = Str ''B'', labels = [''2024-01''], chart_values = [101]\<rparr>"
  by code_simp

lemma stock_by_total:
  "idxmax (groupby_sum cell_less (map (\<lambda>r. (cell_at r ''product'', total_of r)) stock_rows))
     = Inr (Str ''A'')"
  by code_simp

lemma monthly_run:
  "process_data sample_pandas [''product'', ''total'', ''month''] monthly_rows
     (selected ''product'' ''total'' ''month'') Month
   = Inr \<lparr>total_revenue = 7, best_product = Str ''A'', labels = [''Mar'', ''Dec''], chart_values = [2, 5]\<rparr>"
  by code_simp



subsection \<open>Validation and its order\<close>

text \<open>
  C1, as the program runs it. The uploaded header has a cell that is a single space, which
  line 323 normalizes to the empty name; the form leaves total, quantity and price blank.
  Line 360 asks only whether the blank names are among the columns, so the blank column is
  read as both quantity and price: the request is not refused with the revenue message, its
  total is 3 times 3.
\<close>

theorem blank_quantity_and_price_match_blank_column:
  "normalize_columns blank_header = [''product'', [], ''date'']
   \<and> total_col (form_mapping blank_form) = []
   \<and> quantity_col (form_mapping blank_form) = []
   \<and> price_col (form_mapping blank_form) = []
   \<and> process_data sample_pandas (normalize_columns blank_header) blank_rows (form_mapping blank_form)
        (parse_time_mode (f_time_mode blank_form))
       = Inr \<lparr>total_revenue = 9, best_product = Str ''A'', labels = [''2024-01''],
              chart_values = [9]\<rparr>"
  by (intro conjI blank_inputs blank_run)






subsection \<open>Buckets and revenue on the examples\<close>



subsection \<open>Leaderboard\<close>

text \<open>
  C5, as the program runs it. The file has a column called quantity and the form selects no
  quantity role. Line 475 finds the raw column in the frame and ranks by it: the best
  product is B, which has the greater raw quantity, while by total it would be A.
\<close>

theorem unselected_quantity_column_decides_leaderboard:
  "quantity_col (selected ''product'' ''total'' ''date'') = []
   \<and> process_data sample_pandas stock_columns stock_rows (selected ''product'' ''total'' ''date'') Date
       = Inr \<lparr>total_revenue = 101, best_product = Str ''B'', labels = [''2024-01''],
              chart_values = [101]\<rparr>
   \<and> idxmax (groupby_sum cell_less (map (\<lambda>r. (cell_at r ''product'', total_of r)) stock_rows))
       = Inr (Str ''A'')"
  by (intro conjI stock_run stock_by_total) (simp add: selected_def unset_mapping_def)

subsection \<open>Month labels on an example\<close>

text \<open>
  C7 on a table whose months come as dec, 3.5 and December.
\<close>

theorem month_labels_calendar_order_witness:
  "process_data sample_pandas [''product'', ''total'', ''month''] monthly_rows
     (selected ''product'' ''total'' ''month'') Month
   = Inr \<lparr>total_revenue = 7, best_product = Str ''A'', labels = [''Mar'', ''Dec''],
          chart_values = [2, 5]\<rparr>
   \<and> (\<exists>ks. labels \<lparr>total_revenue = 7, best_product = Str ''A'', labels = [''Mar'', ''Dec''],
                      chart_values = [2, 5]\<rparr> = map month_abbr ks
           \<and> sorted_wrt (<) ks \<and> list_all (\<lambda>k. 1 \<le> k \<and> k \<le> 12) ks
           \<and> set (labels \<lparr>total_revenue = 7, best_product = Str ''A'', labels = [''Mar'', ''Dec''],
                      chart_values = [2, 5]\<rparr>) \<subseteq> set month_abbr_names)"
  by (rule conjI [OF monthly_run month_labels_calendar_order [OF monthly_run]])

subsection \<open>Fractional months\<close>





subsection \<open>A failed write on an example\<close>


end
